theory Spec2Isabelle
  imports Main
begin

section \<open>Tokens, sources and the tokenizer interface\<close>

text \<open>
  The parser (package \<open>parser\<close>) consumes the lexer only through \<open>lexer.Lex\<close>, the token
  kinds \<open>lexer.TokenKind[...]\<close>, the token fields \<open>Kind\<close>, \<open>Start\<close>, \<open>End\<close>, \<open>Value\<close> and
  the two description functions. The lexer package itself is not part of the parser file.
\<close>

text \<open>Modelled from the spec: the token kinds of the lexer package (section 6 lists them:
  end-of-input, name, the literal kinds, and the punctuators). \<open>BRACE_L\<close>/\<open>BRACE_R\<close> are
  \<open>{\<close> and \<open>}\<close> (the delimiters of a selection set), \<open>BRACKET_L\<close>/\<open>BRACKET_R\<close> are \<open>[\<close>
  and \<open>]\<close>, \<open>PAREN_L\<close>/\<open>PAREN_R\<close> are \<open>(\<close> and \<open>)\<close>.\<close>

datatype TokenKind =
    EOF | BANG | DOLLAR | PAREN_L | PAREN_R | SPREAD | COLON | EQUALS | AT
  | BRACKET_L | BRACKET_R | BRACE_L | BRACE_R | NAME
  | INT_LIT | FLOAT_LIT | STRING_LIT | BOOLEAN_LIT

record Token =
  Kind :: TokenKind
  Start :: int
  End :: int
  Value :: string

text \<open>Modelled from the spec: the raw source-text wrapper (text plus an optional name) of
  package \<open>source\<close>, and its constructor.\<close>

record Source =
  Body :: string
  SourceName :: string

definition NewSource :: "string \<Rightarrow> string \<Rightarrow> Source" where
  "NewSource body name = \<lparr>Body = body, SourceName = name\<rparr>"

text \<open>An \<open>error\<close> value of the Go code: a lexical error of the tokenizer (passed through
  unchanged) or \<open>graphqlerrors.NewSyntaxError(source, position, description)\<close>.\<close>

datatype error = LexError string | SyntaxError Source int string

text \<open>Modelled from the spec: \<open>lexer.GetTokenKindDesc\<close> and \<open>lexer.GetTokenDesc\<close>, the
  descriptions used in "Expected X, found Y" and "Unexpected Y". A punctuator is described
  by its own text; a token that carries text is described by its kind and the quoted text.\<close>

fun GetTokenKindDesc :: "TokenKind \<Rightarrow> string" where
  "GetTokenKindDesc EOF = ''EOF''"
| "GetTokenKindDesc BANG = ''!''"
| "GetTokenKindDesc DOLLAR = ''$''"
| "GetTokenKindDesc PAREN_L = ''(''"
| "GetTokenKindDesc PAREN_R = '')''"
| "GetTokenKindDesc SPREAD = ''...''"
| "GetTokenKindDesc COLON = '':''"
| "GetTokenKindDesc EQUALS = ''=''"
| "GetTokenKindDesc AT = ''@''"
| "GetTokenKindDesc BRACKET_L = ''[''"
| "GetTokenKindDesc BRACKET_R = '']''"
| "GetTokenKindDesc BRACE_L = ''{''"
| "GetTokenKindDesc BRACE_R = ''}''"
| "GetTokenKindDesc NAME = ''Name''"
| "GetTokenKindDesc INT_LIT = ''Int''"
| "GetTokenKindDesc FLOAT_LIT = ''Float''"
| "GetTokenKindDesc STRING_LIT = ''String''"
| "GetTokenKindDesc BOOLEAN_LIT = ''Boolean''"

definition GetTokenDesc :: "Token \<Rightarrow> string" where
  "GetTokenDesc token =
     (if Value token = [] then GetTokenKindDesc (Kind token)
      else GetTokenKindDesc (Kind token) @ '' \"'' @ Value token @ ''\"'')"

section \<open>The abstract syntax tree (package ast)\<close>

text \<open>
  Every struct of \<open>ast.go\<close> is a datatype whose fields follow the struct (the constant
  \<open>Kind\<close> string of a node is the constructor). A Go slice is a list (a nil slice and an
  empty slice are both \<open>[]\<close>); the pointer \<open>*source.Source\<close> of a location is an option.
  The interfaces \<open>ast.Type\<close> and \<open>ast.Value\<close> are the closed sums of the values the
  parser stores in them; \<open>NilValue\<close> is the nil interface.
\<close>

record Location =
  Loc_Start :: int
  Loc_End :: int
  Loc_Source :: "Source option"

definition zeroLocation :: Location where
  "zeroLocation = \<lparr>Loc_Start = 0, Loc_End = 0, Loc_Source = None\<rparr>"

datatype Name = Name (name_Loc: Location) (name_Value: string)

datatype NamedType = NamedType (namedType_Loc: Location) (namedType_Name: Name)

datatype Type =
    TypeNamed NamedType
  | ListType Location Type
  | NonNullType Location Type

datatype Value = NilValue | ArrayValue Location "Value list"

datatype Variable = Variable (variable_Loc: Location) (variable_Name: Name)

datatype VariableDefinition =
  VariableDefinition (vd_Loc: Location) (vd_Variable: Variable) (vd_Type: Type)
    (vd_DefaultValue: Value)

datatype Argument = Argument (arg_Loc: Location) (arg_Name: Name) (arg_Value: Value)

datatype Directive = Directive (dir_Loc: Location) (dir_Name: Name) (dir_Value: Value)

datatype SelectionSet = SelectionSet (ss_Loc: Location) (ss_Selections: "Selection list")
and Selection =
    Field Location Name Name "Argument list" "Directive list" SelectionSet
  | FragmentSpread Location Name "Directive list"
  | InlineFragment Location NamedType "Directive list" SelectionSet

text \<open>The zero values \<open>ast.Name{}\<close> and \<open>ast.SelectionSet{}\<close> of an absent alias, an
  absent operation name and an absent nested selection set.\<close>

definition zeroName :: Name where
  "zeroName = Name zeroLocation []"

definition zeroSelectionSet :: SelectionSet where
  "zeroSelectionSet = SelectionSet zeroLocation []"

text \<open>Modelled from the spec: the two variants of \<open>ast.Definition\<close>, the structs
  \<open>od.OperationDefinition\<close> (location, operation, name, variable definitions, directives,
  selection set) and \<open>fd.FragmentDefinition\<close> (location, name, type condition, directives,
  selection set), whose constructors leave every field at its zero value.\<close>

datatype Definition =
    OperationDefinition Location string Name "VariableDefinition list" "Directive list"
      SelectionSet
  | FragmentDefinition Location Name NamedType "Directive list" SelectionSet

datatype Document = Document (doc_Loc: Location) (doc_Definitions: "Definition list")

section \<open>The token cursor\<close>

record ParseOptions =
  NoLocation :: bool
  NoSource :: bool

record Parser =
  LexToken :: "int \<Rightarrow> error + Token"
  Source :: Source
  Options :: ParseOptions
  PrevEnd :: int
  Token :: Token

text \<open>
  A Go function of the parser mutates \<open>*Parser\<close> and returns \<open>(value, error)\<close>, or panics,
  or (on a tokenizer that never reaches the end of input) does not return. An outcome
  carries the parser as the call leaves it. Recursion and loops are bounded by a fuel
  argument; \<open>OutOfFuel\<close> says that the bound was too small.
\<close>

datatype 'a outcome = OutOfFuel | Panic | Fail error Parser | Return 'a Parser

definition andThen :: "'a outcome \<Rightarrow> ('a \<Rightarrow> Parser \<Rightarrow> 'b outcome) \<Rightarrow> 'b outcome" where
  "andThen m k =
     (case m of OutOfFuel \<Rightarrow> OutOfFuel | Panic \<Rightarrow> Panic | Fail e p \<Rightarrow> Fail e p
      | Return a p \<Rightarrow> k a p)"

definition unexpected :: "Parser \<Rightarrow> error" where
  "unexpected parser =
     (let token = Token parser
      in SyntaxError (Source parser) (Start token) (''Unexpected '' @ GetTokenDesc token))"

text \<open>\<open>advance\<close> stores the end of the current token, then asks the tokenizer for the next
  one; when the tokenizer fails the error is returned and the current token stays.\<close>

definition advance :: "Parser \<Rightarrow> error option \<times> Parser" where
  "advance parser =
     (let prevEnd = End (Token parser);
          parser = parser\<lparr>PrevEnd := prevEnd\<rparr>
      in case LexToken parser prevEnd of
           Inl err \<Rightarrow> (Some err, parser)
         | Inr token \<Rightarrow> (None, parser\<lparr>Token := token\<rparr>))"

text \<open>\<open>skip\<close>, \<open>expect\<close> and \<open>expectKeyWord\<close> call \<open>advance\<close> and drop its error.\<close>

definition skip :: "Parser \<Rightarrow> TokenKind \<Rightarrow> bool \<times> Parser" where
  "skip parser kind =
     (if Kind (Token parser) = kind then (True, snd (advance parser)) else (False, parser))"

definition peek :: "Parser \<Rightarrow> TokenKind \<Rightarrow> bool" where
  "peek parser kind = (Kind (Token parser) = kind)"

definition loc :: "Parser \<Rightarrow> int \<Rightarrow> Location" where
  "loc parser start =
     (if NoLocation (Options parser) then zeroLocation
      else if NoSource (Options parser)
        then \<lparr>Loc_Start = start, Loc_End = PrevEnd parser, Loc_Source = None\<rparr>
      else \<lparr>Loc_Start = start, Loc_End = PrevEnd parser, Loc_Source = Some (Source parser)\<rparr>)"

definition expect :: "Parser \<Rightarrow> TokenKind \<Rightarrow> Token outcome" where
  "expect parser kind =
     (let token = Token parser
      in if Kind token = kind then Return token (snd (advance parser))
         else Fail (SyntaxError (Source parser) (Start token)
                (''Expected '' @ GetTokenKindDesc kind @ '', found '' @ GetTokenDesc token))
              parser)"

definition expectKeyWord :: "Parser \<Rightarrow> string \<Rightarrow> Token outcome" where
  "expectKeyWord parser value =
     (let token = Token parser
      in if Kind token = NAME \<and> Value token = value then Return token (snd (advance parser))
         else Fail (SyntaxError (Source parser) (Start token)
                (''Expected \"'' @ value @ ''\", found '' @ GetTokenDesc token))
              parser)"

section \<open>Primitive grammar\<close>

definition parseName :: "Parser \<Rightarrow> Name outcome" where
  "parseName parser =
     andThen (expect parser NAME) (\<lambda>token parser.
       Return (Name (loc parser (Start token)) (Value token)) parser)"

definition parseNamedType :: "Parser \<Rightarrow> NamedType outcome" where
  "parseNamedType parser =
     (let start = Start (Token parser)
      in andThen (parseName parser) (\<lambda>name parser.
           Return (NamedType (loc parser start) name) parser))"

definition parseFragmentName :: "Parser \<Rightarrow> Name outcome" where
  "parseFragmentName parser =
     (if Value (Token parser) = ''on'' then Fail (unexpected parser) parser
      else parseName parser)"

definition parseVariable :: "Parser \<Rightarrow> Variable outcome" where
  "parseVariable parser =
     (let start = Start (Token parser)
      in andThen (expect parser DOLLAR) (\<lambda>_ parser.
         andThen (parseName parser) (\<lambda>name parser.
           Return (Variable (loc parser start) name) parser)))"

text \<open>\<open>parseType\<close> tests the current token against \<open>lexer.BRACE_L\<close> and closes the list
  with \<open>lexer.BRACKET_R\<close>, as the source does.\<close>

fun parseType :: "nat \<Rightarrow> Parser \<Rightarrow> Type outcome" where
  "parseType 0 parser = OutOfFuel"
| "parseType (Suc n) parser =
     (let start = Start (Token parser);
          (isList, parser) = skip parser BRACE_L
      in andThen
           (if isList then
              andThen (parseType n parser) (\<lambda>t parser.
              andThen (expect parser BRACKET_R) (\<lambda>_ parser.
                Return (ListType (loc parser start) t) parser))
            else
              andThen (parseNamedType parser) (\<lambda>name parser.
                Return (TypeNamed name) parser))
           (\<lambda>ttype parser.
              let (isNonNull, parser) = skip parser BANG
              in if isNonNull then Return (NonNullType (loc parser start) ttype) parser
                 else Return ttype parser))"

section \<open>List combinators\<close>

text \<open>
  \<open>many\<close> and \<open>any\<close> return \<open>(nodes, err)\<close>: the items parsed so far together with the
  error of the item that failed, if one did. The \<open>for\<close> loop of each is a recursive
  function on the fuel.
\<close>

fun many_loop ::
  "nat \<Rightarrow> (Parser \<Rightarrow> 'a outcome) \<Rightarrow> TokenKind \<Rightarrow> 'a list \<Rightarrow> Parser
    \<Rightarrow> ('a list \<times> error option) outcome" where
  "many_loop 0 parseFn closeKind nodes parser = OutOfFuel"
| "many_loop (Suc n) parseFn closeKind nodes parser =
     (let (closed, parser) = skip parser closeKind
      in if closed then Return (nodes, None) parser
         else case parseFn parser of
                OutOfFuel \<Rightarrow> OutOfFuel
              | Panic \<Rightarrow> Panic
              | Fail err parser \<Rightarrow> Return (nodes, Some err) parser
              | Return node parser \<Rightarrow> many_loop n parseFn closeKind (nodes @ [node]) parser)"

definition many ::
  "nat \<Rightarrow> Parser \<Rightarrow> TokenKind \<Rightarrow> (Parser \<Rightarrow> 'a outcome) \<Rightarrow> TokenKind
    \<Rightarrow> ('a list \<times> error option) outcome" where
  "many n parser openKind parseFn closeKind =
     (case expect parser openKind of
        OutOfFuel \<Rightarrow> OutOfFuel
      | Panic \<Rightarrow> Panic
      | Fail err parser \<Rightarrow> Return ([], Some err) parser
      | Return _ parser \<Rightarrow>
          (case parseFn parser of
             OutOfFuel \<Rightarrow> OutOfFuel
           | Panic \<Rightarrow> Panic
           | Fail err parser \<Rightarrow> Return ([], Some err) parser
           | Return node parser \<Rightarrow> many_loop n parseFn closeKind [node] parser))"

fun any_loop ::
  "nat \<Rightarrow> (Parser \<Rightarrow> 'a outcome) \<Rightarrow> TokenKind \<Rightarrow> 'a list \<Rightarrow> Parser
    \<Rightarrow> ('a list \<times> error option) outcome" where
  "any_loop 0 parseFn closeKind nodes parser = OutOfFuel"
| "any_loop (Suc n) parseFn closeKind nodes parser =
     (let (closed, parser) = skip parser closeKind
      in if closed then Return (nodes, None) parser
         else case parseFn parser of
                OutOfFuel \<Rightarrow> OutOfFuel
              | Panic \<Rightarrow> Panic
              | Fail err parser \<Rightarrow> Return (nodes, Some err) parser
              | Return n' parser \<Rightarrow> any_loop n parseFn closeKind (nodes @ [n']) parser)"

text \<open>When the opening token is missing, \<open>any\<close> returns the empty sequence and no error.\<close>

definition any ::
  "nat \<Rightarrow> Parser \<Rightarrow> TokenKind \<Rightarrow> (Parser \<Rightarrow> 'a outcome) \<Rightarrow> TokenKind
    \<Rightarrow> ('a list \<times> error option) outcome" where
  "any n parser openKind parseFn closeKind =
     (case expect parser openKind of
        OutOfFuel \<Rightarrow> OutOfFuel
      | Panic \<Rightarrow> Panic
      | Fail err parser \<Rightarrow> Return ([], None) parser
      | Return _ parser \<Rightarrow> any_loop n parseFn closeKind [] parser)"

text \<open>
  The loop \<open>for i, x := range items { dst[i] = x }\<close> of \<open>parseVariableDefinitions\<close>,
  \<open>parseArray\<close> and \<open>parseArguments\<close>: an index assignment to a slice panics when the index
  is not below the length of the slice. \<open>None\<close> is the panic.
\<close>

fun assignEach :: "'a list \<Rightarrow> nat \<Rightarrow> 'a list \<Rightarrow> 'a list option" where
  "assignEach dst i [] = Some dst"
| "assignEach dst i (x # items) =
     (if i < length dst then assignEach (dst[i := x]) (Suc i) items else None)"

section \<open>Value grammar\<close>

fun parseValue :: "nat \<Rightarrow> Parser \<Rightarrow> bool \<Rightarrow> Value outcome"
and parseArray :: "nat \<Rightarrow> Parser \<Rightarrow> bool \<Rightarrow> Value outcome"
and parseConstValue :: "nat \<Rightarrow> Parser \<Rightarrow> Value outcome"
and parseVariableValue :: "nat \<Rightarrow> Parser \<Rightarrow> Value outcome"
where
  "parseValue n parser isConst =
     (let token = Token parser
      in if Kind token = BRACE_L then parseArray n parser isConst
         else Fail (unexpected parser) parser)"
| "parseArray 0 parser isConst = OutOfFuel"
| "parseArray (Suc n) parser isConst =
     (let start = Start (Token parser);
          item = (if isConst then parseConstValue n else parseVariableValue n)
      in andThen (any n parser BRACE_L item BRACKET_R) (\<lambda>(iValues, err) parser.
           case err of
             Some e \<Rightarrow> Fail e parser
           | None \<Rightarrow>
               (case assignEach [] 0 iValues of
                  None \<Rightarrow> Panic
                | Some values \<Rightarrow> Return (ArrayValue (loc parser start) values) parser)))"
| "parseConstValue n parser = parseValue n parser True"
| "parseVariableValue n parser = parseValue n parser False"

section \<open>Directives, arguments and variable definitions\<close>

definition parseDirective :: "nat \<Rightarrow> Parser \<Rightarrow> Directive outcome" where
  "parseDirective n parser =
     (let start = Start (Token parser)
      in andThen (expect parser AT) (\<lambda>_ parser.
         andThen (parseName parser) (\<lambda>name parser.
         let (hasValue, parser) = skip parser COLON
         in andThen (if hasValue then parseValue n parser False else Return NilValue parser)
              (\<lambda>value parser. Return (Directive (loc parser start) name value) parser))))"

fun parseDirectives_loop ::
  "nat \<Rightarrow> nat \<Rightarrow> Directive list \<Rightarrow> Parser \<Rightarrow> Directive list outcome" where
  "parseDirectives_loop 0 n directives parser = OutOfFuel"
| "parseDirectives_loop (Suc k) n directives parser =
     (if \<not> peek parser AT then Return directives parser
      else case parseDirective n parser of
             OutOfFuel \<Rightarrow> OutOfFuel
           | Panic \<Rightarrow> Panic
           | Fail err parser \<Rightarrow> Fail err parser
           | Return directive parser \<Rightarrow>
               parseDirectives_loop k n (directives @ [directive]) parser)"

definition parseDirectives :: "nat \<Rightarrow> Parser \<Rightarrow> Directive list outcome" where
  "parseDirectives n parser = parseDirectives_loop n n [] parser"

definition parseArgument :: "nat \<Rightarrow> Parser \<Rightarrow> Argument outcome" where
  "parseArgument n parser =
     (let start = Start (Token parser)
      in andThen (parseName parser) (\<lambda>name parser.
         andThen (expect parser COLON) (\<lambda>_ parser.
         andThen (parseValue n parser False) (\<lambda>value parser.
           Return (Argument (loc parser start) name value) parser))))"

text \<open>\<open>parseArguments\<close> returns the error of \<open>many\<close> before it copies the items.\<close>

definition parseArguments :: "nat \<Rightarrow> Parser \<Rightarrow> Argument list outcome" where
  "parseArguments n parser =
     (if peek parser PAREN_L then
        andThen (many n parser PAREN_L (parseArgument n) PAREN_R) (\<lambda>(iArguments, err) parser.
          case err of
            Some e \<Rightarrow> Fail e parser
          | None \<Rightarrow>
              (case assignEach [] 0 iArguments of
                 None \<Rightarrow> Panic
               | Some arguments \<Rightarrow> Return arguments parser))
      else Return [] parser)"

text \<open>\<open>parseVariableDefinition\<close> looks for \<open>=\<close> and a default value first, then requires
  \<open>:\<close>, then parses the variable and its type.\<close>

definition parseVariableDefinition :: "nat \<Rightarrow> Parser \<Rightarrow> VariableDefinition outcome" where
  "parseVariableDefinition n parser =
     (let start = Start (Token parser);
          (hasDefault, parser) = skip parser EQUALS
      in andThen (if hasDefault then parseValue n parser True else Return NilValue parser)
           (\<lambda>defaultValue parser.
         andThen (expect parser COLON) (\<lambda>_ parser.
         andThen (parseVariable parser) (\<lambda>variable parser.
         andThen (parseType n parser) (\<lambda>ttype parser.
           Return (VariableDefinition (loc parser start) variable ttype defaultValue)
             parser)))))"

text \<open>\<open>parseVariableDefinitions\<close> copies the items before it looks at the error of
  \<open>many\<close>.\<close>

definition parseVariableDefinitions :: "nat \<Rightarrow> Parser \<Rightarrow> VariableDefinition list outcome" where
  "parseVariableDefinitions n parser =
     (if peek parser PAREN_L then
        andThen (many n parser PAREN_L (parseVariableDefinition n) PAREN_R) (\<lambda>(vdefs, err) parser.
          case assignEach [] 0 vdefs of
            None \<Rightarrow> Panic
          | Some variableDefinitions \<Rightarrow>
              (case err of
                 Some e \<Rightarrow> Fail e parser
               | None \<Rightarrow> Return variableDefinitions parser))
      else Return [] parser)"

section \<open>Selection grammar\<close>

fun parseSelectionSet :: "nat \<Rightarrow> Parser \<Rightarrow> SelectionSet outcome"
and parseSelection :: "nat \<Rightarrow> Parser \<Rightarrow> Selection outcome"
and parseFragment :: "nat \<Rightarrow> Parser \<Rightarrow> Selection outcome"
and parseField :: "nat \<Rightarrow> Parser \<Rightarrow> Selection outcome"
where
  "parseSelectionSet 0 parser = OutOfFuel"
| "parseSelectionSet (Suc n) parser =
     (let start = Start (Token parser)
      in andThen (many n parser BRACE_L (parseSelection n) BRACE_R) (\<lambda>(selections, err) parser.
           case err of
             Some e \<Rightarrow> Fail e parser
           | None \<Rightarrow> Return (SelectionSet (loc parser start) selections) parser))"
| "parseSelection n parser =
     (if peek parser SPREAD then parseFragment n parser else parseField n parser)"
| "parseFragment n parser =
     (let start = Start (Token parser)
      in andThen (expect parser SPREAD) (\<lambda>_ parser.
           if Value (Token parser) = ''on'' then
             (let parser = snd (advance parser)
              in andThen (parseNamedType parser) (\<lambda>name parser.
                 andThen (parseDirectives n parser) (\<lambda>directives parser.
                 andThen (parseSelectionSet n parser) (\<lambda>selectionSet parser.
                   Return (InlineFragment (loc parser start) name directives selectionSet)
                     parser))))
           else
             andThen (parseFragmentName parser) (\<lambda>name parser.
             andThen (parseDirectives n parser) (\<lambda>directives parser.
               Return (FragmentSpread (loc parser start) name directives) parser))))"
| "parseField n parser =
     (let start = Start (Token parser)
      in andThen (parseName parser) (\<lambda>nameOrAlias parser.
         let (hasAlias, parser) = skip parser COLON
         in andThen
              (if hasAlias then
                 andThen (parseName parser) (\<lambda>n' parser. Return (nameOrAlias, n') parser)
               else Return (zeroName, nameOrAlias) parser)
              (\<lambda>(alias, name) parser.
         andThen
           (if peek parser BRACE_L then parseSelectionSet n parser
            else Return zeroSelectionSet parser)
           (\<lambda>selectionSet parser.
         andThen (parseArguments n parser) (\<lambda>arguments parser.
         andThen (parseDirectives n parser) (\<lambda>directives parser.
           Return (Field (loc parser start) alias name arguments directives selectionSet)
             parser))))))"

section \<open>Definition grammar\<close>

definition parseOperationDefinition :: "nat \<Rightarrow> Parser \<Rightarrow> Definition outcome" where
  "parseOperationDefinition n parser =
     (let start = Start (Token parser)
      in if peek parser BRACE_L then
           andThen (parseSelectionSet n parser) (\<lambda>selectionSet parser.
             Return (OperationDefinition (loc parser start) ''query'' zeroName [] []
               selectionSet) parser)
         else
           andThen (expect parser NAME) (\<lambda>operationToken parser.
           let operation = Value operationToken
           in andThen (parseName parser) (\<lambda>name parser.
              andThen (parseVariableDefinitions n parser) (\<lambda>variableDefinitions parser.
              andThen (parseDirectives n parser) (\<lambda>directives parser.
              andThen (parseSelectionSet n parser) (\<lambda>selectionSet parser.
                Return (OperationDefinition (loc parser start) operation name
                  variableDefinitions directives selectionSet) parser))))))"

definition parseFragmentDefinition :: "nat \<Rightarrow> Parser \<Rightarrow> Definition outcome" where
  "parseFragmentDefinition n parser =
     (let start = Start (Token parser)
      in andThen (expectKeyWord parser ''fragment'') (\<lambda>_ parser.
         andThen (parseFragmentName parser) (\<lambda>name parser.
         andThen (expectKeyWord parser ''on'') (\<lambda>_ parser.
         andThen (parseNamedType parser) (\<lambda>typeCondition parser.
         andThen (parseSelectionSet n parser) (\<lambda>selectionSet parser.
         andThen (parseDirectives n parser) (\<lambda>directives parser.
           Return (FragmentDefinition (loc parser start) name typeCondition directives
             selectionSet) parser)))))))"

section \<open>The document dispatcher and the entry point\<close>

fun parseDocument_loop ::
  "nat \<Rightarrow> nat \<Rightarrow> int \<Rightarrow> Definition list \<Rightarrow> Parser \<Rightarrow> Document outcome" where
  "parseDocument_loop 0 n start definitions parser = OutOfFuel"
| "parseDocument_loop (Suc k) n start definitions parser =
     (let (atEnd, parser) = skip parser EOF
      in if atEnd then Return (Document (loc parser start) definitions) parser
         else if peek parser BRACE_L then
           (case parseOperationDefinition n parser of
              OutOfFuel \<Rightarrow> OutOfFuel
            | Panic \<Rightarrow> Panic
            | Fail err parser \<Rightarrow> Fail err parser
            | Return oDef parser \<Rightarrow>
                parseDocument_loop k n start (definitions @ [oDef]) parser)
         else if peek parser NAME then
           (if Value (Token parser) = ''query'' \<or> Value (Token parser) = ''mutation'' then
              (case parseOperationDefinition n parser of
                 OutOfFuel \<Rightarrow> OutOfFuel
               | Panic \<Rightarrow> Panic
               | Fail err parser \<Rightarrow> Fail err parser
               | Return oDef parser \<Rightarrow>
                   parseDocument_loop k n start (definitions @ [oDef]) parser)
            else if Value (Token parser) = ''fragment'' then
              (case parseFragmentDefinition n parser of
                 OutOfFuel \<Rightarrow> OutOfFuel
               | Panic \<Rightarrow> Panic
               | Fail err parser \<Rightarrow> Fail err parser
               | Return fDef parser \<Rightarrow>
                   parseDocument_loop k n start (definitions @ [fDef]) parser)
            else Fail (unexpected parser) parser)
         else Fail (unexpected parser) parser)"

definition parseDocument :: "nat \<Rightarrow> Parser \<Rightarrow> Document outcome" where
  "parseDocument n parser =
     (let start = Start (Token parser)
      in parseDocument_loop n n start [] parser)"

text \<open>\<open>makeParser\<close> reads the first token at offset 0; this is the only place where an
  error of the tokenizer is returned to the caller.\<close>

definition makeParser :: "(Source \<Rightarrow> int \<Rightarrow> error + Token) \<Rightarrow> Source \<Rightarrow> ParseOptions
    \<Rightarrow> error + Parser" where
  "makeParser Lex s opts =
     (let lexToken = Lex s
      in case lexToken 0 of
           Inl err \<Rightarrow> Inl err
         | Inr token \<Rightarrow>
             Inr \<lparr>LexToken = lexToken, Source = s, Options = opts, PrevEnd = 0,
                  Token = token\<rparr>)"

text \<open>What the caller of \<open>Parse\<close> observes: no answer, a panic, an error, or a document.\<close>

datatype 'a answer = Diverges | Panics | Error error | Result 'a

fun observe :: "'a outcome \<Rightarrow> 'a answer" where
  "observe OutOfFuel = Diverges"
| "observe Panic = Panics"
| "observe (Fail err parser) = Error err"
| "observe (Return a parser) = Result a"

text \<open>The \<open>Source\<close> field of \<open>ParseParams\<close> is a \<open>*source.Source\<close> or a string.\<close>

datatype SourceParam = SourceObject Source | SourceText string

record ParseParams =
  Params_Source :: SourceParam
  Params_Options :: ParseOptions

text \<open>\<open>Lex\<close> is \<open>lexer.Lex\<close>, the tokenizer of the lexer package.\<close>

definition Parse :: "nat \<Rightarrow> (Source \<Rightarrow> int \<Rightarrow> error + Token) \<Rightarrow> ParseParams
    \<Rightarrow> Document answer" where
  "Parse n Lex p =
     (let sourceObj =
            (case Params_Source p of
               SourceObject s \<Rightarrow> s
             | SourceText s \<Rightarrow> NewSource s [])
      in case makeParser Lex sourceObj (Params_Options p) of
           Inl err \<Rightarrow> Error err
         | Inr parser \<Rightarrow> observe (parseDocument n parser))"

text \<open>
  A tokenizer over a fixed token sequence, for running the parser on a given text: the
  token at an offset is the first token of the sequence that starts at or after it, and
  the end-of-input token \<open>eof\<close> when there is none.
\<close>

definition tokenStream :: "Token list \<Rightarrow> Token \<Rightarrow> int \<Rightarrow> error + Token" where
  "tokenStream tokens eof offset =
     (case find (\<lambda>t. offset \<le> Start t) tokens of
        Some t \<Rightarrow> Inr t
      | None \<Rightarrow> Inr eof)"

definition tok :: "TokenKind \<Rightarrow> int \<Rightarrow> int \<Rightarrow> string \<Rightarrow> Token" where
  "tok k s e v = \<lparr>Kind = k, Start = s, End = e, Value = v\<rparr>"

text \<open>The options of a default parse, the parser that \<open>makeParser\<close> builds for a text with
  the given tokens under these options, and \<open>Parse\<close> on a text with the given tokens.\<close>

definition defaultOptions :: ParseOptions where
  "defaultOptions = \<lparr>NoLocation = False, NoSource = False\<rparr>"

definition parserOn :: "string \<Rightarrow> Token list \<Rightarrow> Token \<Rightarrow> Parser" where
  "parserOn body tokens eof =
     \<lparr>LexToken = tokenStream tokens eof, Source = NewSource body [],
      Options = defaultOptions, PrevEnd = 0,
      Token = (case tokenStream tokens eof 0 of Inr t \<Rightarrow> t | Inl _ \<Rightarrow> eof)\<rparr>"

definition parseText ::
  "nat \<Rightarrow> string \<Rightarrow> Token list \<Rightarrow> Token \<Rightarrow> ParseOptions \<Rightarrow> Document answer" where
  "parseText n body tokens eof opts =
     Parse n (\<lambda>_. tokenStream tokens eof)
       \<lparr>Params_Source = SourceText body, Params_Options = opts\<rparr>"

text \<open>The location from \<open>start\<close> to \<open>end\<close> with a reference to the source \<open>s\<close>.\<close>

definition span :: "Source \<Rightarrow> int \<Rightarrow> int \<Rightarrow> Location" where
  "span s start end = \<lparr>Loc_Start = start, Loc_End = end, Loc_Source = Some s\<rparr>"

section \<open>Locations of a syntax tree\<close>

text \<open>
  Two traversals of the tree, used to state properties of every location in a document:
  \<open>mapLoc...\<close> applies a function to the location of every node, and \<open>allLoc...\<close> says
  that the location of every node satisfies a predicate.
\<close>

primrec mapLocName :: "(Location \<Rightarrow> Location) \<Rightarrow> Name \<Rightarrow> Name" where
  "mapLocName f (Name l v) = Name (f l) v"

primrec mapLocNamedType :: "(Location \<Rightarrow> Location) \<Rightarrow> NamedType \<Rightarrow> NamedType" where
  "mapLocNamedType f (NamedType l name) = NamedType (f l) (mapLocName f name)"

primrec mapLocType :: "(Location \<Rightarrow> Location) \<Rightarrow> Type \<Rightarrow> Type" where
  "mapLocType f (TypeNamed t) = TypeNamed (mapLocNamedType f t)"
| "mapLocType f (ListType l t) = ListType (f l) (mapLocType f t)"
| "mapLocType f (NonNullType l t) = NonNullType (f l) (mapLocType f t)"

primrec mapLocValue :: "(Location \<Rightarrow> Location) \<Rightarrow> Value \<Rightarrow> Value" where
  "mapLocValue f NilValue = NilValue"
| "mapLocValue f (ArrayValue l values) = ArrayValue (f l) (map (mapLocValue f) values)"

primrec mapLocVariable :: "(Location \<Rightarrow> Location) \<Rightarrow> Variable \<Rightarrow> Variable" where
  "mapLocVariable f (Variable l name) = Variable (f l) (mapLocName f name)"

primrec mapLocVariableDefinition ::
  "(Location \<Rightarrow> Location) \<Rightarrow> VariableDefinition \<Rightarrow> VariableDefinition" where
  "mapLocVariableDefinition f (VariableDefinition l v t d) =
     VariableDefinition (f l) (mapLocVariable f v) (mapLocType f t) (mapLocValue f d)"

primrec mapLocArgument :: "(Location \<Rightarrow> Location) \<Rightarrow> Argument \<Rightarrow> Argument" where
  "mapLocArgument f (Argument l name v) = Argument (f l) (mapLocName f name) (mapLocValue f v)"

primrec mapLocDirective :: "(Location \<Rightarrow> Location) \<Rightarrow> Directive \<Rightarrow> Directive" where
  "mapLocDirective f (Directive l name v) = Directive (f l) (mapLocName f name) (mapLocValue f v)"

primrec mapLocSelectionSet :: "(Location \<Rightarrow> Location) \<Rightarrow> SelectionSet \<Rightarrow> SelectionSet"
and mapLocSelection :: "(Location \<Rightarrow> Location) \<Rightarrow> Selection \<Rightarrow> Selection" where
  "mapLocSelectionSet f (SelectionSet l selections) =
     SelectionSet (f l) (map (mapLocSelection f) selections)"
| "mapLocSelection f (Field l alias name arguments directives selectionSet) =
     Field (f l) (mapLocName f alias) (mapLocName f name) (map (mapLocArgument f) arguments)
       (map (mapLocDirective f) directives) (mapLocSelectionSet f selectionSet)"
| "mapLocSelection f (FragmentSpread l name directives) =
     FragmentSpread (f l) (mapLocName f name) (map (mapLocDirective f) directives)"
| "mapLocSelection f (InlineFragment l typeCondition directives selectionSet) =
     InlineFragment (f l) (mapLocNamedType f typeCondition)
       (map (mapLocDirective f) directives) (mapLocSelectionSet f selectionSet)"

primrec mapLocDefinition :: "(Location \<Rightarrow> Location) \<Rightarrow> Definition \<Rightarrow> Definition" where
  "mapLocDefinition f (OperationDefinition l operation name vdefs directives selectionSet) =
     OperationDefinition (f l) operation (mapLocName f name)
       (map (mapLocVariableDefinition f) vdefs) (map (mapLocDirective f) directives)
       (mapLocSelectionSet f selectionSet)"
| "mapLocDefinition f (FragmentDefinition l name typeCondition directives selectionSet) =
     FragmentDefinition (f l) (mapLocName f name) (mapLocNamedType f typeCondition)
       (map (mapLocDirective f) directives) (mapLocSelectionSet f selectionSet)"

primrec mapLocDocument :: "(Location \<Rightarrow> Location) \<Rightarrow> Document \<Rightarrow> Document" where
  "mapLocDocument f (Document l definitions) =
     Document (f l) (map (mapLocDefinition f) definitions)"

primrec allLocName :: "(Location \<Rightarrow> bool) \<Rightarrow> Name \<Rightarrow> bool" where
  "allLocName P (Name l v) = P l"

primrec allLocNamedType :: "(Location \<Rightarrow> bool) \<Rightarrow> NamedType \<Rightarrow> bool" where
  "allLocNamedType P (NamedType l name) = (P l \<and> allLocName P name)"

primrec allLocType :: "(Location \<Rightarrow> bool) \<Rightarrow> Type \<Rightarrow> bool" where
  "allLocType P (TypeNamed t) = allLocNamedType P t"
| "allLocType P (ListType l t) = (P l \<and> allLocType P t)"
| "allLocType P (NonNullType l t) = (P l \<and> allLocType P t)"

primrec allLocValue :: "(Location \<Rightarrow> bool) \<Rightarrow> Value \<Rightarrow> bool" where
  "allLocValue P NilValue = True"
| "allLocValue P (ArrayValue l values) = (P l \<and> list_all (allLocValue P) values)"

primrec allLocVariable :: "(Location \<Rightarrow> bool) \<Rightarrow> Variable \<Rightarrow> bool" where
  "allLocVariable P (Variable l name) = (P l \<and> allLocName P name)"

primrec allLocVariableDefinition :: "(Location \<Rightarrow> bool) \<Rightarrow> VariableDefinition \<Rightarrow> bool" where
  "allLocVariableDefinition P (VariableDefinition l v t d) =
     (P l \<and> allLocVariable P v \<and> allLocType P t \<and> allLocValue P d)"

primrec allLocArgument :: "(Location \<Rightarrow> bool) \<Rightarrow> Argument \<Rightarrow> bool" where
  "allLocArgument P (Argument l name v) = (P l \<and> allLocName P name \<and> allLocValue P v)"

primrec allLocDirective :: "(Location \<Rightarrow> bool) \<Rightarrow> Directive \<Rightarrow> bool" where
  "allLocDirective P (Directive l name v) = (P l \<and> allLocName P name \<and> allLocValue P v)"

primrec allLocSelectionSet :: "(Location \<Rightarrow> bool) \<Rightarrow> SelectionSet \<Rightarrow> bool"
and allLocSelection :: "(Location \<Rightarrow> bool) \<Rightarrow> Selection \<Rightarrow> bool" where
  "allLocSelectionSet P (SelectionSet l selections) =
     (P l \<and> list_all (allLocSelection P) selections)"
| "allLocSelection P (Field l alias name arguments directives selectionSet) =
     (P l \<and> allLocName P alias \<and> allLocName P name \<and> list_all (allLocArgument P) arguments
      \<and> list_all (allLocDirective P) directives \<and> allLocSelectionSet P selectionSet)"
| "allLocSelection P (FragmentSpread l name directives) =
     (P l \<and> allLocName P name \<and> list_all (allLocDirective P) directives)"
| "allLocSelection P (InlineFragment l typeCondition directives selectionSet) =
     (P l \<and> allLocNamedType P typeCondition \<and> list_all (allLocDirective P) directives
      \<and> allLocSelectionSet P selectionSet)"

primrec allLocDefinition :: "(Location \<Rightarrow> bool) \<Rightarrow> Definition \<Rightarrow> bool" where
  "allLocDefinition P (OperationDefinition l operation name vdefs directives selectionSet) =
     (P l \<and> allLocName P name \<and> list_all (allLocVariableDefinition P) vdefs
      \<and> list_all (allLocDirective P) directives \<and> allLocSelectionSet P selectionSet)"
| "allLocDefinition P (FragmentDefinition l name typeCondition directives selectionSet) =
     (P l \<and> allLocName P name \<and> allLocNamedType P typeCondition
      \<and> list_all (allLocDirective P) directives \<and> allLocSelectionSet P selectionSet)"

primrec allLocDocument :: "(Location \<Rightarrow> bool) \<Rightarrow> Document \<Rightarrow> bool" where
  "allLocDocument P (Document l definitions) = (P l \<and> list_all (allLocDefinition P) definitions)"

(*DEFS*)
section \<open>Basic facts\<close>

lemma andThen_simps [simp]:
  "andThen OutOfFuel k = OutOfFuel"
  "andThen Panic k = Panic"
  "andThen (Fail e p) k = Fail e p"
  "andThen (Return a p) k = k a p"
  by (simp_all add: andThen_def)

lemmas cursor_defs = skip_def peek_def expect_def expectKeyWord_def advance_def loc_def
  unexpected_def GetTokenDesc_def tokenStream_def tok_def parserOn_def defaultOptions_def
  NewSource_def zeroLocation_def

lemmas grammar_defs = parseName_def parseNamedType_def parseFragmentName_def
  parseVariable_def Let_def

lemmas eval_defs = parseText_def Parse_def makeParser_def parseDocument_def
  parseOperationDefinition_def many_def any_def parseName_def skip_def peek_def expect_def
  parseArguments_def parseDirectives_def loc_def defaultOptions_def parseArgument_def
  parseVariableDefinitions_def parseVariableDefinition_def parseVariable_def
  parseNamedType_def advance_def tokenStream_def tok_def GetTokenDesc_def Let_def span_def
  parserOn_def NewSource_def

lemma observe_Result: "observe m = Result a \<longleftrightarrow> (\<exists>p. m = Return a p)"
  by (cases m) auto

lemma observe_Error: "observe m = Error e \<longleftrightarrow> (\<exists>p. m = Fail e p)"
  by (cases m) auto

lemma observe_Panics: "observe m = Panics \<longleftrightarrow> m = Panic"
  by (cases m) auto

lemma observe_Diverges: "observe m = Diverges \<longleftrightarrow> m = OutOfFuel"
  by (cases m) auto

lemma makeParser_tokenStream:
  "makeParser (\<lambda>_. tokenStream tokens eof) (NewSource body []) defaultOptions
     = Inr (parserOn body tokens eof)"
  by (simp add: makeParser_def parserOn_def tokenStream_def split: option.splits)

section \<open>Type references\<close>

text \<open>
  Claim C1. The claim expects \<open>[Int]!\<close> to parse to a non-null list of \<open>Int\<close> and \<open>[Int!]\<close>
  to a list of non-null \<open>Int\<close>. \<open>parseType\<close> compares the current token with
  \<open>lexer.BRACE_L\<close>, not with \<open>lexer.BRACKET_L\<close>, so on both texts (tokens \<open>[\<close> \<open>Int\<close> \<open>]\<close>
  \<open>!\<close> and \<open>[\<close> \<open>Int\<close> \<open>!\<close> \<open>]\<close>) the list branch is not taken, \<open>parseNamedType\<close> is
  called on the token \<open>[\<close>, and the result, for every positive fuel, is the syntax error
  "Expected Name, found [" at offset 0.
\<close>

theorem parseType_bracket_rejected:
  "observe (parseType (Suc n) (parserOn ''[Int]!''
      [tok BRACKET_L 0 1 [], tok NAME 1 4 ''Int'', tok BRACKET_R 4 5 [], tok BANG 5 6 []]
      (tok EOF 6 6 [])))
     = Error (SyntaxError (NewSource ''[Int]!'' []) 0 ''Expected Name, found ['')
   \<and> observe (parseType (Suc n) (parserOn ''[Int!]''
      [tok BRACKET_L 0 1 [], tok NAME 1 4 ''Int'', tok BANG 4 5 [], tok BRACKET_R 5 6 []]
      (tok EOF 6 6 [])))
     = Error (SyntaxError (NewSource ''[Int!]'' []) 0 ''Expected Name, found ['')"
  by (simp add: cursor_defs grammar_defs)

text \<open>The wrapping order that the claim describes is what \<open>parseType\<close> builds when the
  list is opened by \<open>{\<close> and closed by \<open>]\<close>: the texts \<open>{Int]!\<close> and \<open>{Int!]\<close>.\<close>

lemma parseType_brace_opens_list:
  "observe (parseType (Suc (Suc n)) (parserOn ''{Int]!''
      [tok BRACE_L 0 1 [], tok NAME 1 4 ''Int'', tok BRACKET_R 4 5 [], tok BANG 5 6 []]
      (tok EOF 6 6 [])))
     = Result
         (NonNullType \<lparr>Loc_Start = 0, Loc_End = 6, Loc_Source = Some (NewSource ''{Int]!'' [])\<rparr>
           (ListType \<lparr>Loc_Start = 0, Loc_End = 5, Loc_Source = Some (NewSource ''{Int]!'' [])\<rparr>
             (TypeNamed
               (NamedType
                 \<lparr>Loc_Start = 1, Loc_End = 4, Loc_Source = Some (NewSource ''{Int]!'' [])\<rparr>
                 (Name
                   \<lparr>Loc_Start = 1, Loc_End = 4, Loc_Source = Some (NewSource ''{Int]!'' [])\<rparr>
                   ''Int'')))))"
  "observe (parseType (Suc (Suc n)) (parserOn ''{Int!]''
      [tok BRACE_L 0 1 [], tok NAME 1 4 ''Int'', tok BANG 4 5 [], tok BRACKET_R 5 6 []]
      (tok EOF 6 6 [])))
     = Result
         (ListType \<lparr>Loc_Start = 0, Loc_End = 6, Loc_Source = Some (NewSource ''{Int!]'' [])\<rparr>
           (NonNullType \<lparr>Loc_Start = 1, Loc_End = 5, Loc_Source = Some (NewSource ''{Int!]'' [])\<rparr>
             (TypeNamed
               (NamedType
                 \<lparr>Loc_Start = 1, Loc_End = 4, Loc_Source = Some (NewSource ''{Int!]'' [])\<rparr>
                 (Name
                   \<lparr>Loc_Start = 1, Loc_End = 4, Loc_Source = Some (NewSource ''{Int!]'' [])\<rparr>
                   ''Int'')))))"
  by (simp_all add: cursor_defs grammar_defs)

section \<open>Values\<close>

lemma parseValue_other_kind:
  "Kind (Token parser) \<noteq> BRACE_L \<Longrightarrow>
     parseValue n parser isConst = Fail (unexpected parser) parser"
  by (simp add: Let_def)

lemma parseValue_brace:
  "Kind (Token parser) = BRACE_L \<Longrightarrow> parseValue n parser isConst = parseArray n parser isConst"
  by (simp add: Let_def)

text \<open>
  Claim C3. The claim names \<open>[\<close> as the one token kind that \<open>parseValue\<close> recognises. The
  \<open>switch\<close> of \<open>parseValue\<close> has the single case \<open>lexer.BRACE_L\<close>: on the text \<open>[]\<close> the
  token \<open>[\<close> is answered, for every fuel and both values of \<open>isConst\<close>, by the syntax error
  "Unexpected [" at offset 0, and the recognised kind is \<open>{\<close>: the text \<open>{]\<close> parses to an
  empty \<open>ArrayValue\<close>.
\<close>

theorem parseValue_bracket_unexpected:
  "observe (parseValue n (parserOn ''[]'' [tok BRACKET_L 0 1 [], tok BRACKET_R 1 2 []]
      (tok EOF 2 2 [])) isConst)
     = Error (SyntaxError (NewSource ''[]'' []) 0 ''Unexpected ['')
   \<and> observe (parseValue (Suc (Suc n)) (parserOn ''{]''
      [tok BRACE_L 0 1 [], tok BRACKET_R 1 2 []] (tok EOF 2 2 [])) isConst)
     = Result
         (ArrayValue \<lparr>Loc_Start = 0, Loc_End = 2, Loc_Source = Some (NewSource ''{]'' [])\<rparr> [])"
  by (simp add: cursor_defs grammar_defs any_def)

section \<open>Fragment names\<close>

text \<open>
  Claim C8. \<open>parseFragmentName\<close> fails with the unexpected-token error at the start of the
  current token whenever the text of that token is \<open>on\<close>; so \<open>Parse\<close> on the text
  \<open>fragment on on User { id }\<close> (tokens \<open>fragment\<close> 0-8, \<open>on\<close> 9-11, \<open>on\<close> 12-14, \<open>User\<close>
  15-19, \<open>{\<close> 20-21, \<open>id\<close> 22-24, \<open>}\<close> 25-26) fails, for every positive fuel and all options,
  with that error at offset 9, the start of the first \<open>on\<close>.
\<close>

theorem parseFragmentName_rejects_on:
  "(Value (Token parser) = ''on'' \<longrightarrow>
      parseFragmentName parser =
        Fail (SyntaxError (Source parser) (Start (Token parser))
               (''Unexpected '' @ GetTokenDesc (Token parser))) parser)
   \<and> parseText (Suc n) ''fragment on on User { id }''
        [tok NAME 0 8 ''fragment'', tok NAME 9 11 ''on'', tok NAME 12 14 ''on'',
         tok NAME 15 19 ''User'', tok BRACE_L 20 21 [], tok NAME 22 24 ''id'',
         tok BRACE_R 25 26 []] (tok EOF 26 26 []) opts
       = Error (SyntaxError (NewSource ''fragment on on User { id }'' []) 9
           (''Unexpected '' @ GetTokenDesc (tok NAME 9 11 ''on'')))"
  by (simp add: parseText_def Parse_def makeParser_def parseDocument_def
      parseFragmentDefinition_def parseFragmentName_def unexpected_def skip_def peek_def
      expectKeyWord_def advance_def tokenStream_def tok_def Let_def)

theorem parseFragmentName_rejects_on_witness:
  "Value (Token (parserOn ''on on User''
       [tok NAME 0 2 ''on'', tok NAME 3 5 ''on'', tok NAME 6 10 ''User'']
       (tok EOF 10 10 []))) = ''on''
   \<and> observe (parseFragmentName (parserOn ''on on User''
       [tok NAME 0 2 ''on'', tok NAME 3 5 ''on'', tok NAME 6 10 ''User''] (tok EOF 10 10 [])))
     = Error (SyntaxError (NewSource ''on on User'' []) 0 ''Unexpected Name \"on\"'')"
  using parseFragmentName_rejects_on
    [of "parserOn ''on on User''
          [tok NAME 0 2 ''on'', tok NAME 3 5 ''on'', tok NAME 6 10 ''User'']
          (tok EOF 10 10 [])"]
  by (simp add: cursor_defs)

section \<open>Variable definitions\<close>

text \<open>
  Claim C10. When the current token is \<open>$\<close> (a punctuator, which carries no text),
  \<open>parseVariableDefinition\<close> finds no \<open>=\<close>, requires \<open>:\<close> and fails with the syntax error
  "Expected :, found $" at the start of that token, for every fuel. So a variable-definition
  list in the standard form, \<open>(\<close> followed by \<open>$\<close>, is never accepted:
  \<open>parseVariableDefinitions\<close> returns that error.
\<close>

theorem parseVariableDefinition_dollar_first:
  "(Kind (Token parser) = DOLLAR \<and> Value (Token parser) = [] \<longrightarrow>
      parseVariableDefinition n parser =
        Fail (SyntaxError (Source parser) (Start (Token parser)) ''Expected :, found $'') parser)
   \<and> (Kind (Token parser) = PAREN_L \<and> LexToken parser (End (Token parser)) = Inr t
        \<and> Kind t = DOLLAR \<and> Value t = [] \<longrightarrow>
      observe (parseVariableDefinitions n parser) =
        Error (SyntaxError (Source parser) (Start t) ''Expected :, found $''))"
  by (simp add: parseVariableDefinition_def parseVariableDefinitions_def many_def skip_def
      peek_def expect_def advance_def GetTokenDesc_def Let_def)

text \<open>The instance: the list \<open>($x: Int)\<close>, tokens \<open>(\<close> 0-1, \<open>$\<close> 1-2, \<open>x\<close> 2-3, \<open>:\<close> 3-4,
  \<open>Int\<close> 5-8, \<open>)\<close> 8-9.\<close>

theorem parseVariableDefinition_dollar_first_witness:
  "Kind (Token (parserOn ''($x: Int)''
       [tok PAREN_L 0 1 [], tok DOLLAR 1 2 [], tok NAME 2 3 ''x'', tok COLON 3 4 [],
        tok NAME 5 8 ''Int'', tok PAREN_R 8 9 []] (tok EOF 9 9 []))) = PAREN_L
   \<and> observe (parseVariableDefinitions 3 (parserOn ''($x: Int)''
       [tok PAREN_L 0 1 [], tok DOLLAR 1 2 [], tok NAME 2 3 ''x'', tok COLON 3 4 [],
        tok NAME 5 8 ''Int'', tok PAREN_R 8 9 []] (tok EOF 9 9 [])))
     = Error (SyntaxError (NewSource ''($x: Int)'' []) 1 ''Expected :, found $'')"
  using parseVariableDefinition_dollar_first
    [where n = 3 and t = "tok DOLLAR 1 2 []" and parser = "parserOn ''($x: Int)''
       [tok PAREN_L 0 1 [], tok DOLLAR 1 2 [], tok NAME 2 3 ''x'', tok COLON 3 4 [],
        tok NAME 5 8 ''Int'', tok PAREN_R 8 9 []] (tok EOF 9 9 [])"]
  by (simp add: cursor_defs)

section \<open>The list combinators and the copy loops\<close>

lemma many_loop_extends:
  "many_loop n parseFn closeKind nodes parser = Return (items, err) parser' \<Longrightarrow>
     \<exists>rest. items = nodes @ rest"
proof (induction n arbitrary: nodes parser)
  case 0
  then show ?case by simp
next
  case (Suc n)
  show ?case
  proof (cases "fst (skip parser closeKind)")
    case True
    with Suc.prems show ?thesis by (simp add: split_def)
  next
    case False
    with Suc.prems show ?thesis
      by (auto simp: split_def split: outcome.splits dest!: Suc.IH)
  qed
qed

lemma many_success_nonempty:
  "many n parser openKind parseFn closeKind = Return (items, None) parser' \<Longrightarrow> items \<noteq> []"
  by (auto simp: many_def split: outcome.splits dest!: many_loop_extends)

lemma many_never_empty [simp]:
  "many n parser openKind parseFn closeKind \<noteq> Return ([], None) parser'"
  using many_success_nonempty by blast

lemma many_items_open:
  "many n parser openKind parseFn closeKind = Return (items, err) parser' \<Longrightarrow> items \<noteq> [] \<Longrightarrow>
     Kind (Token parser) = openKind"
  by (auto simp: many_def expect_def Let_def split: if_splits)

lemma assignEach_empty: "assignEach [] 0 items = (if items = [] then Some [] else None)"
  by (cases items) simp_all

text \<open>
  Claim C2, as amended. When \<open>many\<close> or \<open>any\<close> returns a non-empty item sequence,
  \<open>parseArguments\<close> and \<open>parseArray\<close> first look at the error returned with it: with an error
  they return that error and never reach the copy loop; without one the first index
  assignment into the empty destination is out of range and the call panics.
  \<open>parseVariableDefinitions\<close> runs the copy loop before it looks at the error, so it panics
  on every non-empty item sequence, with or without an error.
\<close>

theorem index_assignment_panics:
  "(observe (many n parserA PAREN_L (parseArgument n) PAREN_R) = Result (iArguments, err)
      \<and> iArguments \<noteq> [] \<longrightarrow>
    observe (parseArguments n parserA) = (case err of None \<Rightarrow> Panics | Some e \<Rightarrow> Error e))
   \<and> (observe (any n parserV BRACE_L
          (if isConst then parseConstValue n else parseVariableValue n) BRACKET_R)
        = Result (iValues, err') \<and> iValues \<noteq> [] \<longrightarrow>
    observe (parseArray (Suc n) parserV isConst)
      = (case err' of None \<Rightarrow> Panics | Some e \<Rightarrow> Error e))
   \<and> (observe (many n parserD PAREN_L (parseVariableDefinition n) PAREN_R)
        = Result (vdefs, err'') \<and> vdefs \<noteq> [] \<longrightarrow>
    observe (parseVariableDefinitions n parserD) = Panics)"
proof -
  have a: "observe (parseArguments n parserA)
      = (case err of None \<Rightarrow> Panics | Some e \<Rightarrow> Error e)"
    if "observe (many n parserA PAREN_L (parseArgument n) PAREN_R) = Result (iArguments, err)"
      and "iArguments \<noteq> []"
  proof -
    from that obtain p
      where m: "many n parserA PAREN_L (parseArgument n) PAREN_R = Return (iArguments, err) p"
      by (auto simp: observe_Result)
    with that have "peek parserA PAREN_L"
      by (auto simp: peek_def dest: many_items_open)
    with m that show ?thesis
      by (simp add: parseArguments_def assignEach_empty split: option.splits)
  qed
  have b: "observe (parseArray (Suc n) parserV isConst)
      = (case err' of None \<Rightarrow> Panics | Some e \<Rightarrow> Error e)"
    if "observe (any n parserV BRACE_L
          (if isConst then parseConstValue n else parseVariableValue n) BRACKET_R)
        = Result (iValues, err')" and "iValues \<noteq> []"
  proof -
    from that obtain p
      where "any n parserV BRACE_L
          (if isConst then parseConstValue n else parseVariableValue n) BRACKET_R
        = Return (iValues, err') p"
      by (auto simp: observe_Result)
    with that show ?thesis
      by (simp add: assignEach_empty Let_def split: option.splits)
  qed
  have c: "observe (parseVariableDefinitions n parserD) = Panics"
    if "observe (many n parserD PAREN_L (parseVariableDefinition n) PAREN_R)
        = Result (vdefs, err'')" and "vdefs \<noteq> []"
  proof -
    from that obtain p
      where m: "many n parserD PAREN_L (parseVariableDefinition n) PAREN_R
        = Return (vdefs, err'') p"
      by (auto simp: observe_Result)
    with that have "peek parserD PAREN_L"
      by (auto simp: peek_def dest: many_items_open)
    with m that show ?thesis
      by (simp add: parseVariableDefinitions_def assignEach_empty)
  qed
  from a b c show ?thesis by blast
qed

text \<open>The instances: the argument list \<open>(a: {])\<close>, the array \<open>{{]]\<close> and the
  variable-definition list \<open>(: $x Int)\<close> each parse one item and panic.\<close>

theorem index_assignment_panics_witness:
  "observe (parseArguments 3 (parserOn ''(a: {])''
       [tok PAREN_L 0 1 [], tok NAME 1 2 ''a'', tok COLON 2 3 [], tok BRACE_L 4 5 [],
        tok BRACKET_R 5 6 [], tok PAREN_R 6 7 []] (tok EOF 7 7 []))) = Panics
   \<and> observe (parseArray 4 (parserOn ''{{]]''
       [tok BRACE_L 0 1 [], tok BRACE_L 1 2 [], tok BRACKET_R 2 3 [], tok BRACKET_R 3 4 []]
       (tok EOF 4 4 [])) False) = Panics
   \<and> observe (parseVariableDefinitions 3 (parserOn ''(: $x Int)''
       [tok PAREN_L 0 1 [], tok COLON 1 2 [], tok DOLLAR 3 4 [], tok NAME 4 5 ''x'',
        tok NAME 6 9 ''Int'', tok PAREN_R 9 10 []] (tok EOF 10 10 []))) = Panics"
  using index_assignment_panics [where n = 3 and isConst = False
    and parserA = "parserOn ''(a: {])''
       [tok PAREN_L 0 1 [], tok NAME 1 2 ''a'', tok COLON 2 3 [], tok BRACE_L 4 5 [],
        tok BRACKET_R 5 6 [], tok PAREN_R 6 7 []] (tok EOF 7 7 [])"
    and iArguments = "[Argument (span (NewSource ''(a: {])'' []) 1 6)
                  (Name (span (NewSource ''(a: {])'' []) 1 2) ''a'')
                  (ArrayValue (span (NewSource ''(a: {])'' []) 4 6) [])]"
    and err = None
    and parserV = "parserOn ''{{]]''
       [tok BRACE_L 0 1 [], tok BRACE_L 1 2 [], tok BRACKET_R 2 3 [], tok BRACKET_R 3 4 []]
       (tok EOF 4 4 [])"
    and iValues = "[ArrayValue (span (NewSource ''{{]]'' []) 1 3) []]"
    and err' = None
    and parserD = "parserOn ''(: $x Int)''
       [tok PAREN_L 0 1 [], tok COLON 1 2 [], tok DOLLAR 3 4 [], tok NAME 4 5 ''x'',
        tok NAME 6 9 ''Int'', tok PAREN_R 9 10 []] (tok EOF 10 10 [])"
    and vdefs = "[VariableDefinition (span (NewSource ''(: $x Int)'' []) 1 9)
        (Variable (span (NewSource ''(: $x Int)'' []) 3 5)
          (Name (span (NewSource ''(: $x Int)'' []) 4 5) ''x''))
        (TypeNamed (NamedType (span (NewSource ''(: $x Int)'' []) 6 9)
          (Name (span (NewSource ''(: $x Int)'' []) 6 9) ''Int'')))
        NilValue]"
    and err'' = None]
  apply (simp add: eval_nat_numeral)
  apply (simp add: eval_defs)
  done

text \<open>
  Claim C2 as stated fails on the argument list \<open>(a: {]\<close> followed by the end of input:
  \<open>many\<close> hands back one parsed argument together with the error of the second item, and
  \<open>parseArguments\<close> returns that syntax error; no index assignment is executed.
\<close>

theorem index_assignment_counterexample:
  "observe (many 3 (parserOn ''(a: {]''
       [tok PAREN_L 0 1 [], tok NAME 1 2 ''a'', tok COLON 2 3 [], tok BRACE_L 4 5 [],
        tok BRACKET_R 5 6 []] (tok EOF 6 6 [])) PAREN_L (parseArgument 3) PAREN_R)
     = Result ([Argument (span (NewSource ''(a: {]'' []) 1 6)
                  (Name (span (NewSource ''(a: {]'' []) 1 2) ''a'')
                  (ArrayValue (span (NewSource ''(a: {]'' []) 4 6) [])],
               Some (SyntaxError (NewSource ''(a: {]'' []) 6 ''Expected Name, found EOF''))
   \<and> observe (parseArguments 3 (parserOn ''(a: {]''
       [tok PAREN_L 0 1 [], tok NAME 1 2 ''a'', tok COLON 2 3 [], tok BRACE_L 4 5 [],
        tok BRACKET_R 5 6 []] (tok EOF 6 6 [])))
     = Error (SyntaxError (NewSource ''(a: {]'' []) 6 ''Expected Name, found EOF'')"
  by (simp add: eval_defs eval_nat_numeral)

section \<open>Selection sets\<close>

lemma parseSelectionSet_nonempty:
  assumes "parseSelectionSet n parser = Return selectionSet parser'"
  shows "ss_Selections selectionSet \<noteq> []"
proof (cases n)
  case 0
  with assms show ?thesis by simp
next
  case (Suc m)
  with assms show ?thesis
    by (auto simp: Let_def andThen_def split: outcome.splits option.splits)
qed

text \<open>
  Claim C4, as amended. \<open>many\<close> never returns an empty item sequence without an error, so
  a selection set that \<open>parseSelectionSet\<close> returns has at least one selection. The texts
  \<open>{ }\<close> and \<open>query Q { }\<close> fail with a syntax error that names the closing brace,
  "Expected Name, found }", at its offset. The text \<open>query { }\<close> fails earlier: an
  operation introduced by a keyword requires a name, and the error is
  "Expected Name, found {" at offset 6.
\<close>

theorem selection_sets_nonempty:
  "(observe (many n parser openKind parseFn closeKind) = Result (items, None) \<longrightarrow> items \<noteq> [])
   \<and> (observe (parseSelectionSet n parser) = Result selectionSet \<longrightarrow>
        ss_Selections selectionSet \<noteq> [])
   \<and> parseText (Suc k) ''{ }'' [tok BRACE_L 0 1 [], tok BRACE_R 2 3 []] (tok EOF 3 3 []) opts
       = Error (SyntaxError (NewSource ''{ }'' []) 2 ''Expected Name, found }'')
   \<and> parseText (Suc k) ''query Q { }''
        [tok NAME 0 5 ''query'', tok NAME 6 7 ''Q'', tok BRACE_L 8 9 [], tok BRACE_R 10 11 []]
        (tok EOF 11 11 []) opts
       = Error (SyntaxError (NewSource ''query Q { }'' []) 10 ''Expected Name, found }'')
   \<and> parseText (Suc k) ''query { }''
        [tok NAME 0 5 ''query'', tok BRACE_L 6 7 [], tok BRACE_R 8 9 []] (tok EOF 9 9 []) opts
       = Error (SyntaxError (NewSource ''query { }'' []) 6 ''Expected Name, found {'')"
proof -
  have a: "observe (many n parser openKind parseFn closeKind) = Result (items, None)
      \<longrightarrow> items \<noteq> []"
    by (auto simp: observe_Result dest: many_success_nonempty)
  have b: "observe (parseSelectionSet n parser) = Result selectionSet \<longrightarrow>
        ss_Selections selectionSet \<noteq> []"
    by (auto simp: observe_Result dest: parseSelectionSet_nonempty)
  have c: "parseText (Suc k) ''{ }'' [tok BRACE_L 0 1 [], tok BRACE_R 2 3 []]
        (tok EOF 3 3 []) opts
       = Error (SyntaxError (NewSource ''{ }'' []) 2 ''Expected Name, found }'')"
    by (simp add: eval_defs)
  have d: "parseText (Suc k) ''query Q { }''
        [tok NAME 0 5 ''query'', tok NAME 6 7 ''Q'', tok BRACE_L 8 9 [], tok BRACE_R 10 11 []]
        (tok EOF 11 11 []) opts
       = Error (SyntaxError (NewSource ''query Q { }'' []) 10 ''Expected Name, found }'')"
    by (cases k) (simp_all add: eval_defs)
  have e: "parseText (Suc k) ''query { }''
        [tok NAME 0 5 ''query'', tok BRACE_L 6 7 [], tok BRACE_R 8 9 []] (tok EOF 9 9 []) opts
       = Error (SyntaxError (NewSource ''query { }'' []) 6 ''Expected Name, found {'')"
    by (simp add: eval_defs)
  from a b c d e show ?thesis by blast
qed

text \<open>The instance: the selection set \<open>{ a }\<close>, tokens \<open>{\<close> 0-1, \<open>a\<close> 2-3, \<open>}\<close> 4-5.\<close>

theorem selection_sets_nonempty_witness:
  "observe (many 2 (parserOn ''{ a }'' [tok BRACE_L 0 1 [], tok NAME 2 3 ''a'', tok BRACE_R 4 5 []]
       (tok EOF 5 5 [])) BRACE_L (parseSelection 1) BRACE_R)
     = Result ([Field (span (NewSource ''{ a }'' []) 2 3) zeroName
                  (Name (span (NewSource ''{ a }'' []) 2 3) ''a'') [] [] zeroSelectionSet], None)
   \<and> observe (parseSelectionSet 2 (parserOn ''{ a }''
       [tok BRACE_L 0 1 [], tok NAME 2 3 ''a'', tok BRACE_R 4 5 []] (tok EOF 5 5 [])))
     = Result (SelectionSet (span (NewSource ''{ a }'' []) 0 5)
         [Field (span (NewSource ''{ a }'' []) 2 3) zeroName
            (Name (span (NewSource ''{ a }'' []) 2 3) ''a'') [] [] zeroSelectionSet])
   \<and> ss_Selections (SelectionSet (span (NewSource ''{ a }'' []) 0 5)
         [Field (span (NewSource ''{ a }'' []) 2 3) zeroName
            (Name (span (NewSource ''{ a }'' []) 2 3) ''a'') [] [] zeroSelectionSet]) \<noteq> []"
  using selection_sets_nonempty [where n = 2
    and parser = "parserOn ''{ a }'' [tok BRACE_L 0 1 [], tok NAME 2 3 ''a'', tok BRACE_R 4 5 []]
       (tok EOF 5 5 [])"
    and openKind = BRACE_L and parseFn = "parseSelection 1" and closeKind = BRACE_R
    and items = "[Field (span (NewSource ''{ a }'' []) 2 3) zeroName
                  (Name (span (NewSource ''{ a }'' []) 2 3) ''a'') [] [] zeroSelectionSet]"
    and selectionSet = "SelectionSet (span (NewSource ''{ a }'' []) 0 5)
         [Field (span (NewSource ''{ a }'' []) 2 3) zeroName
            (Name (span (NewSource ''{ a }'' []) 2 3) ''a'') [] [] zeroSelectionSet]"]
  by (simp add: eval_defs eval_nat_numeral)

text \<open>
  Claim C4 as stated fails on its own example: on the text \<open>query { }\<close> (tokens \<open>query\<close>
  0-5, \<open>{\<close> 6-7, \<open>}\<close> 8-9) the error is raised by \<open>parseName\<close> at the opening brace, offset
  6, and names \<open>{\<close>; the closing brace at offset 8 is never reached.
\<close>

theorem query_without_name_counterexample:
  "parseText 3 ''query { }''
     [tok NAME 0 5 ''query'', tok BRACE_L 6 7 [], tok BRACE_R 8 9 []] (tok EOF 9 9 [])
     defaultOptions
   = Error (SyntaxError (NewSource ''query { }'' []) 6
       (''Expected Name, found '' @ GetTokenDesc (tok BRACE_L 6 7 [])))"
  by (simp add: eval_defs eval_nat_numeral)

section \<open>The anonymous query\<close>

lemma parseDocument_loop_prefix:
  "parseDocument_loop k n start definitions parser = Return doc parser' \<Longrightarrow>
     \<exists>rest. doc_Definitions doc = definitions @ rest"
proof (induction k arbitrary: definitions parser)
  case 0
  then show ?case by simp
next
  case (Suc k)
  from Suc.prems show ?case
    by (auto simp: split_def Let_def split: if_splits outcome.splits dest!: Suc.IH)
qed

lemma parseOperationDefinition_bare:
  "Kind (Token parser) = BRACE_L \<Longrightarrow>
     parseOperationDefinition n parser =
       andThen (parseSelectionSet n parser) (\<lambda>selectionSet parser'.
         Return (OperationDefinition (loc parser' (Start (Token parser))) ''query'' zeroName
           [] [] selectionSet) parser')"
  by (simp add: parseOperationDefinition_def peek_def Let_def)

lemma parseDocument_bare:
  assumes "Kind (Token parser) = BRACE_L" and "parseDocument n parser = Return doc parser'"
  shows "\<exists>l selectionSet rest.
           doc_Definitions doc
             = OperationDefinition l ''query'' zeroName [] [] selectionSet # rest
           \<and> observe (parseSelectionSet n parser) = Result selectionSet"
proof (cases n)
  case 0
  with assms show ?thesis by (simp add: parseDocument_def)
next
  case (Suc k)
  with assms show ?thesis
    by (auto simp: parseDocument_def parseOperationDefinition_bare skip_def peek_def Let_def
          andThen_def
        split: outcome.splits dest!: parseDocument_loop_prefix)
qed

text \<open>
  Claim C5. When the first token of the input is \<open>{\<close> and \<open>Parse\<close> returns a document, the
  first definition of the document is an \<open>OperationDefinition\<close> whose operation is
  \<open>query\<close>, whose name is the zero name, whose variable definitions and directives are
  empty, and whose selection set is the one that \<open>parseSelectionSet\<close> returns at the start
  of the input. On the text \<open>{ hero { name } }\<close> (tokens \<open>{\<close> 0-1, \<open>hero\<close> 2-6, \<open>{\<close> 7-8,
  \<open>name\<close> 9-13, \<open>}\<close> 14-15, \<open>}\<close> 16-17) the document, for every fuel from 3 on, has this one
  definition, with the field \<open>hero\<close> and its nested selection set of the field \<open>name\<close>.
\<close>

theorem anonymous_query_shorthand:
  "(makeParser Lex
       (case Params_Source p of SourceObject s \<Rightarrow> s | SourceText s \<Rightarrow> NewSource s [])
       (Params_Options p) = Inr parser
     \<and> Kind (Token parser) = BRACE_L \<and> Parse n Lex p = Result doc \<longrightarrow>
     (\<exists>l selectionSet rest.
        doc_Definitions doc = OperationDefinition l ''query'' zeroName [] [] selectionSet # rest
        \<and> observe (parseSelectionSet n parser) = Result selectionSet))
   \<and> parseText (Suc (Suc (Suc k))) ''{ hero { name } }''
        [tok BRACE_L 0 1 [], tok NAME 2 6 ''hero'', tok BRACE_L 7 8 [], tok NAME 9 13 ''name'',
         tok BRACE_R 14 15 [], tok BRACE_R 16 17 []] (tok EOF 17 17 []) defaultOptions
       = Result
           (Document (span (NewSource ''{ hero { name } }'' []) 0 17)
             [OperationDefinition (span (NewSource ''{ hero { name } }'' []) 0 17) ''query''
               zeroName [] []
               (SelectionSet (span (NewSource ''{ hero { name } }'' []) 0 17)
                 [Field (span (NewSource ''{ hero { name } }'' []) 2 15) zeroName
                    (Name (span (NewSource ''{ hero { name } }'' []) 2 6) ''hero'') [] []
                    (SelectionSet (span (NewSource ''{ hero { name } }'' []) 7 15)
                      [Field (span (NewSource ''{ hero { name } }'' []) 9 13) zeroName
                         (Name (span (NewSource ''{ hero { name } }'' []) 9 13) ''name'') [] []
                         zeroSelectionSet])])])"
proof -
  have general: "\<exists>l selectionSet rest.
        doc_Definitions doc = OperationDefinition l ''query'' zeroName [] [] selectionSet # rest
        \<and> observe (parseSelectionSet n parser) = Result selectionSet"
    if "makeParser Lex
         (case Params_Source p of SourceObject s \<Rightarrow> s | SourceText s \<Rightarrow> NewSource s [])
         (Params_Options p) = Inr parser"
      and "Kind (Token parser) = BRACE_L" and "Parse n Lex p = Result doc"
  proof -
    from that have "observe (parseDocument n parser) = Result doc"
      by (simp add: Parse_def Let_def)
    then obtain parser' where "parseDocument n parser = Return doc parser'"
      by (auto simp: observe_Result)
    with that(2) show ?thesis by (rule parseDocument_bare)
  qed
  have example: "parseText (Suc (Suc (Suc k))) ''{ hero { name } }''
        [tok BRACE_L 0 1 [], tok NAME 2 6 ''hero'', tok BRACE_L 7 8 [], tok NAME 9 13 ''name'',
         tok BRACE_R 14 15 [], tok BRACE_R 16 17 []] (tok EOF 17 17 []) defaultOptions
       = Result
           (Document (span (NewSource ''{ hero { name } }'' []) 0 17)
             [OperationDefinition (span (NewSource ''{ hero { name } }'' []) 0 17) ''query''
               zeroName [] []
               (SelectionSet (span (NewSource ''{ hero { name } }'' []) 0 17)
                 [Field (span (NewSource ''{ hero { name } }'' []) 2 15) zeroName
                    (Name (span (NewSource ''{ hero { name } }'' []) 2 6) ''hero'') [] []
                    (SelectionSet (span (NewSource ''{ hero { name } }'' []) 7 15)
                      [Field (span (NewSource ''{ hero { name } }'' []) 9 13) zeroName
                         (Name (span (NewSource ''{ hero { name } }'' []) 9 13) ''name'') [] []
                         zeroSelectionSet])])])"
    by (simp add: eval_defs)
  from general example show ?thesis by blast
qed

text \<open>The instance: the text \<open>{ a }\<close> at fuel 2.\<close>

theorem anonymous_query_shorthand_witness:
  "Kind (Token (parserOn ''{ a }''
       [tok BRACE_L 0 1 [], tok NAME 2 3 ''a'', tok BRACE_R 4 5 []] (tok EOF 5 5 []))) = BRACE_L
   \<and> parseText 2 ''{ a }'' [tok BRACE_L 0 1 [], tok NAME 2 3 ''a'', tok BRACE_R 4 5 []]
       (tok EOF 5 5 []) defaultOptions
     = Result
         (Document (span (NewSource ''{ a }'' []) 0 5)
           [OperationDefinition (span (NewSource ''{ a }'' []) 0 5) ''query'' zeroName [] []
             (SelectionSet (span (NewSource ''{ a }'' []) 0 5)
               [Field (span (NewSource ''{ a }'' []) 2 3) zeroName
                  (Name (span (NewSource ''{ a }'' []) 2 3) ''a'') [] [] zeroSelectionSet])])
   \<and> observe (parseSelectionSet 2 (parserOn ''{ a }''
       [tok BRACE_L 0 1 [], tok NAME 2 3 ''a'', tok BRACE_R 4 5 []] (tok EOF 5 5 [])))
     = Result
         (SelectionSet (span (NewSource ''{ a }'' []) 0 5)
           [Field (span (NewSource ''{ a }'' []) 2 3) zeroName
              (Name (span (NewSource ''{ a }'' []) 2 3) ''a'') [] [] zeroSelectionSet])"
  using anonymous_query_shorthand [where n = 2
    and Lex = "\<lambda>_. tokenStream [tok BRACE_L 0 1 [], tok NAME 2 3 ''a'', tok BRACE_R 4 5 []]
       (tok EOF 5 5 [])"
    and p = "\<lparr>Params_Source = SourceText ''{ a }'', Params_Options = defaultOptions\<rparr>"
    and parser = "parserOn ''{ a }''
       [tok BRACE_L 0 1 [], tok NAME 2 3 ''a'', tok BRACE_R 4 5 []] (tok EOF 5 5 [])"
    and doc = "Document (span (NewSource ''{ a }'' []) 0 5)
           [OperationDefinition (span (NewSource ''{ a }'' []) 0 5) ''query'' zeroName [] []
             (SelectionSet (span (NewSource ''{ a }'' []) 0 5)
               [Field (span (NewSource ''{ a }'' []) 2 3) zeroName
                  (Name (span (NewSource ''{ a }'' []) 2 3) ''a'') [] [] zeroSelectionSet])]"]
  by (simp add: eval_defs eval_nat_numeral)

end
